theory Spec2Isabelle
  imports Main "HOL-Library.Word"
begin

section \<open>The pet simulation of main.ino\<close>

text \<open>
  The sketch keeps its simulation in free-standing globals: \<^verbatim>\<open>PetStats pet\<close>,
  \<^verbatim>\<open>PetState currentState\<close>, \<^verbatim>\<open>bool alertWakeup\<close>, \<^verbatim>\<open>unsigned long lastInteraction\<close> and
  the function-local \<^verbatim>\<open>static unsigned long lastAgeUpdate\<close> of \<^verbatim>\<open>updateStats\<close>. Every
  function below takes these globals as a record and returns the updated record. The
  flash store behind \<^verbatim>\<open>Preferences prefs\<close> is a second, explicit component.

  Number types. The target is a 32-bit ESP32: \<^verbatim>\<open>unsigned long\<close> is \<open>32 word\<close> (addition
  and subtraction wrap). The four statistics are C++ \<^verbatim>\<open>int\<close>; they are modelled as \<open>int\<close>.
  Every operation of the sketch on a statistic adds or subtracts a constant of at most 25,
  or a tick count that is at most half of an \<^verbatim>\<open>unsigned long\<close>, so on statistics between
  0 and 100 the 32-bit arithmetic of the device and the arithmetic on \<open>int\<close> agree.

  Left out: drawing on the canvas, sound, display brightness, the animation counters
  (\<^verbatim>\<open>mouthFrame\<close>, \<^verbatim>\<open>vomitFrame\<close>, \<^verbatim>\<open>bounceOffset\<close>, \<^verbatim>\<open>eyeOffsetX\<close>), the delays, and the
  write-only \<^verbatim>\<open>sleepStartTime\<close>. None of them is read by the simulation.
\<close>

subsection \<open>Data\<close>

datatype PetState =
    STATE_IDLE
  | STATE_HAPPY
  | STATE_EATING
  | STATE_SLEEPING
  | STATE_HUNGRY
  | STATE_SICK
  | STATE_PLAYING
  | STATE_VOMITING

text \<open>The enumerators count from 0; \<^verbatim>\<open>(int)currentState\<close> is this number.\<close>

fun PetState_to_int :: "PetState \<Rightarrow> int" where
  "PetState_to_int STATE_IDLE = 0"
| "PetState_to_int STATE_HAPPY = 1"
| "PetState_to_int STATE_EATING = 2"
| "PetState_to_int STATE_SLEEPING = 3"
| "PetState_to_int STATE_HUNGRY = 4"
| "PetState_to_int STATE_SICK = 5"
| "PetState_to_int STATE_PLAYING = 6"
| "PetState_to_int STATE_VOMITING = 7"

text \<open>
  The cast \<^verbatim>\<open>(PetState)savedState\<close>. The enumeration has no fixed underlying type and its
  values are 0..7; the cast of any other integer is undefined, which the model reports
  as \<open>None\<close>.
\<close>

definition PetState_of_int :: "int \<Rightarrow> PetState option" where
  "PetState_of_int n =
     (if n = 0 then Some STATE_IDLE
      else if n = 1 then Some STATE_HAPPY
      else if n = 2 then Some STATE_EATING
      else if n = 3 then Some STATE_SLEEPING
      else if n = 4 then Some STATE_HUNGRY
      else if n = 5 then Some STATE_SICK
      else if n = 6 then Some STATE_PLAYING
      else if n = 7 then Some STATE_VOMITING
      else None)"

record PetStats =
  hunger :: int
  happiness :: int
  energy :: int
  health :: int
  age :: "32 word"

record globals =
  pet :: PetStats
  currentState :: PetState
  alertWakeup :: bool
  lastInteraction :: "32 word"
  lastAgeUpdate :: "32 word"

text \<open>The initialisers of the globals: the state of the program when \<^verbatim>\<open>setup\<close> starts.\<close>

definition boot_globals :: globals where
  "boot_globals =
     \<lparr>pet = \<lparr>hunger = 80, happiness = 80, energy = 100, health = 100, age = 0\<rparr>,
      currentState = STATE_IDLE,
      alertWakeup = False,
      lastInteraction = 0,
      lastAgeUpdate = 0\<rparr>"

text \<open>The bounds the comments of \<^verbatim>\<open>struct PetStats\<close> give for the four statistics.\<close>

definition stats_ok :: "PetStats \<Rightarrow> bool" where
  "stats_ok p =
     (0 \<le> hunger p \<and> hunger p \<le> 100 \<and>
      0 \<le> happiness p \<and> happiness p \<le> 100 \<and>
      0 \<le> energy p \<and> energy p \<le> 100 \<and>
      0 \<le> health p \<and> health p \<le> 100)"

subsection \<open>Platform: wake cause, real-time clock, flash store\<close>

text \<open>
  Modelled from the spec: the declarations of the platform are not part of the sketch.
  The wake cause is the value of \<^verbatim>\<open>esp_sleep_get_wakeup_cause()\<close>; the sketch tells the
  timer and the button (EXT0) apart from everything else. The clock reading is the value
  of \<^verbatim>\<open>M5.Rtc.getDateTime()\<close>, whose fields are small signed integers.
\<close>

datatype esp_sleep_wakeup_cause =
    ESP_SLEEP_WAKEUP_UNDEFINED
  | ESP_SLEEP_WAKEUP_EXT0
  | ESP_SLEEP_WAKEUP_TIMER
  | ESP_SLEEP_WAKEUP_OTHER

record rtc_datetime =
  year :: int
  month :: int
  date :: int
  hours :: int
  minutes :: int

text \<open>
  Modelled from the spec: the key/value gateway (\<^verbatim>\<open>Preferences\<close>) with the contract
  \<^verbatim>\<open>get(key, default)\<close>, \<^verbatim>\<open>put(key, value)\<close>, \<^verbatim>\<open>keyExists(key)\<close>, \<^verbatim>\<open>clearAll()\<close>. A key
  holds a value of the type it was written with; a getter returns its default when the key
  is missing or holds the other type.
\<close>

datatype nvs_value = NvsInt int | NvsULong "32 word"

type_synonym Preferences = "string \<rightharpoonup> nvs_value"

definition isKey :: "Preferences \<Rightarrow> string \<Rightarrow> bool" where
  "isKey prefs k = (case prefs k of None \<Rightarrow> False | Some v \<Rightarrow> True)"

definition getInt :: "Preferences \<Rightarrow> string \<Rightarrow> int \<Rightarrow> int" where
  "getInt prefs k d = (case prefs k of Some (NvsInt v) \<Rightarrow> v | _ \<Rightarrow> d)"

definition getULong :: "Preferences \<Rightarrow> string \<Rightarrow> 32 word \<Rightarrow> 32 word" where
  "getULong prefs k d = (case prefs k of Some (NvsULong v) \<Rightarrow> v | _ \<Rightarrow> d)"

definition putInt :: "string \<Rightarrow> int \<Rightarrow> Preferences \<Rightarrow> Preferences" where
  "putInt k v prefs = prefs(k \<mapsto> NvsInt v)"

definition putULong :: "string \<Rightarrow> 32 word \<Rightarrow> Preferences \<Rightarrow> Preferences" where
  "putULong k v prefs = prefs(k \<mapsto> NvsULong v)"

subsection \<open>saveStats, loadStats, resetPet\<close>

text \<open>
  \<^verbatim>\<open>dt.date.date * 24 * 60 + dt.time.hours * 60 + dt.time.minutes\<close>, computed in \<^verbatim>\<open>int\<close> and
  converted to \<^verbatim>\<open>unsigned long\<close> by the assignment.
\<close>

definition timeVal :: "rtc_datetime \<Rightarrow> 32 word" where
  "timeVal dt = word_of_int (date dt * 24 * 60 + hours dt * 60 + minutes dt)"

definition saveStats :: "rtc_datetime \<Rightarrow> globals \<Rightarrow> Preferences \<Rightarrow> Preferences" where
  "saveStats dt g prefs =
     (putInt ''saveMonth'' (month dt)
     (putULong ''saveTime'' (timeVal dt)
     (putInt ''state'' (PetState_to_int (currentState g))
     (putULong ''age'' (age (pet g))
     (putInt ''health'' (health (pet g))
     (putInt ''energy'' (energy (pet g))
     (putInt ''happiness'' (happiness (pet g))
     (putInt ''hunger'' (hunger (pet g)) prefs))))))))"

text \<open>
  The estimate of \<^verbatim>\<open>loadStats\<close> for the time spent in deep sleep: the local
  \<^verbatim>\<open>elapsedMinutes\<close> after the cap at 60, as a function of what it is computed from.
\<close>

definition elapsedMinutes ::
  "esp_sleep_wakeup_cause \<Rightarrow> rtc_datetime \<Rightarrow> 32 word \<Rightarrow> int \<Rightarrow> 32 word" where
  "elapsedMinutes wakeup_reason dt savedTime savedMonth =
     (let currentTime = timeVal dt;
          e = (if savedTime > 0 \<and> year dt > 2020 then
                 (if month dt = savedMonth \<and> currentTime \<ge> savedTime then
                    currentTime - savedTime
                  else if month dt = savedMonth \<and> currentTime < savedTime then 1
                  else (if wakeup_reason = ESP_SLEEP_WAKEUP_TIMER then 15 else 5))
               else (if wakeup_reason = ESP_SLEEP_WAKEUP_TIMER then 15 else 1))
      in if e > 60 then 60 else e)"

text \<open>
  The decay of \<^verbatim>\<open>loadStats\<close> (from \<^verbatim>\<open>int decayTicks = elapsedMinutes / 2\<close> to
  \<^verbatim>\<open>pet.age += elapsedMinutes\<close>), as a function of the elapsed minutes and of the
  \<^verbatim>\<open>state\<close> value read from the store. Half of an \<^verbatim>\<open>unsigned long\<close> always fits an
  \<^verbatim>\<open>int\<close>, so \<open>decayTicks\<close> is exact. On the non-negative \<open>decayTicks\<close> the
  truncating division of C++ is \<open>div\<close>.
\<close>

definition applyDecay :: "32 word \<Rightarrow> int \<Rightarrow> globals \<Rightarrow> globals" where
  "applyDecay elapsed savedState g =
     (let decayTicks = uint elapsed div 2;
          p = pet g;
          g1 = (if savedState = PetState_to_int STATE_SLEEPING then
                  g\<lparr>pet := p\<lparr>energy := min 100 (energy p + decayTicks)\<rparr>,
                    currentState := STATE_SLEEPING\<rparr>
                else
                  g\<lparr>pet := p\<lparr>hunger := max 0 (hunger p - decayTicks),
                               happiness := max 0 (happiness p - decayTicks),
                               energy := max 0 (energy p - decayTicks div 2)\<rparr>,
                    currentState := STATE_IDLE\<rparr>);
          p1 = pet g1;
          g2 = (if hunger p1 < 10 \<or> happiness p1 < 10 then
                  g1\<lparr>pet := p1\<lparr>health := max 0 (health p1 - decayTicks)\<rparr>\<rparr>
                else g1)
      in g2\<lparr>pet := (pet g2)\<lparr>age := age (pet g2) + elapsed\<rparr>\<rparr>)"

datatype load_error = InvalidPetState int

definition loadStats ::
  "Preferences \<Rightarrow> esp_sleep_wakeup_cause \<Rightarrow> rtc_datetime \<Rightarrow> globals \<Rightarrow> load_error + globals" where
  "loadStats prefs wakeup_reason dt g =
     (if \<not> isKey prefs ''hunger'' then Inr g
      else
        let g0 = g\<lparr>pet := \<lparr>hunger = getInt prefs ''hunger'' 80,
                            happiness = getInt prefs ''happiness'' 80,
                            energy = getInt prefs ''energy'' 100,
                            health = getInt prefs ''health'' 100,
                            age = getULong prefs ''age'' 0\<rparr>\<rparr>;
            savedState = getInt prefs ''state'' (PetState_to_int STATE_IDLE);
            savedTime = getULong prefs ''saveTime'' 0;
            savedMonth = getInt prefs ''saveMonth'' 0
        in
          if wakeup_reason = ESP_SLEEP_WAKEUP_TIMER \<or> wakeup_reason = ESP_SLEEP_WAKEUP_EXT0 then
            Inr ((applyDecay (elapsedMinutes wakeup_reason dt savedTime savedMonth) savedState g0)
                   \<lparr>alertWakeup := (wakeup_reason = ESP_SLEEP_WAKEUP_TIMER)\<rparr>)
          else
            (case PetState_of_int savedState of
               None \<Rightarrow> Inl (InvalidPetState savedState)
             | Some st \<Rightarrow>
                 Inr (g0\<lparr>currentState := (if st = STATE_SLEEPING then STATE_IDLE else st),
                        alertWakeup := False\<rparr>)))"

definition resetPet :: "globals \<Rightarrow> globals \<times> Preferences" where
  "resetPet g =
     (g\<lparr>pet := \<lparr>hunger = 80, happiness = 80, energy = 100, health = 100, age = 0\<rparr>,
        currentState := STATE_IDLE\<rparr>,
      Map.empty)"

subsection \<open>Caregiving actions\<close>

text \<open>
  \<^verbatim>\<open>feedPet\<close> and \<^verbatim>\<open>playWithPet\<close> return early, after the error sound and the message
  "Already full!" or "Too tired!", when they refuse. The model returns the message shown
  as a value next to the globals; the argument \<open>now\<close> is the value of \<^verbatim>\<open>millis()\<close>.
\<close>

datatype rejection = AlreadyFull | TooTired

definition feedPet :: "32 word \<Rightarrow> globals \<Rightarrow> rejection option \<times> globals" where
  "feedPet now g =
     (if hunger (pet g) \<ge> 100 then (Some AlreadyFull, g)
      else
        let g1 = g\<lparr>currentState := STATE_EATING\<rparr>;
            p = pet g1;
            p1 = p\<lparr>hunger := min 100 (hunger p + 25)\<rparr>;
            p2 = p1\<lparr>happiness := min 100 (happiness p1 + 5)\<rparr>
        in (None, g1\<lparr>pet := p2, currentState := STATE_HAPPY, lastInteraction := now\<rparr>))"

definition playWithPet :: "32 word \<Rightarrow> globals \<Rightarrow> rejection option \<times> globals" where
  "playWithPet now g =
     (if energy (pet g) < 20 then (Some TooTired, g)
      else
        let g1 = g\<lparr>currentState := STATE_PLAYING\<rparr>;
            p = pet g1;
            p1 = p\<lparr>happiness := min 100 (happiness p + 20)\<rparr>;
            p2 = p1\<lparr>energy := max 0 (energy p1 - 15)\<rparr>;
            p3 = p2\<lparr>hunger := max 0 (hunger p2 - 5)\<rparr>
        in (None, g1\<lparr>pet := p3, currentState := STATE_HAPPY, lastInteraction := now\<rparr>))"

definition putToSleep :: "globals \<Rightarrow> globals" where
  "putToSleep g = g\<lparr>currentState := STATE_SLEEPING\<rparr>"

definition wakeUp :: "32 word \<Rightarrow> globals \<Rightarrow> globals" where
  "wakeUp now g =
     (if currentState g \<noteq> STATE_SLEEPING then g
      else g\<lparr>currentState := STATE_IDLE, lastInteraction := now\<rparr>)"

definition handleShakeSickness :: "globals \<Rightarrow> globals" where
  "handleShakeSickness g =
     (if currentState g = STATE_SICK \<or> currentState g = STATE_VOMITING then g
      else
        let g1 = g\<lparr>currentState := STATE_VOMITING\<rparr>;
            g2 = g1\<lparr>pet := (pet g1)\<lparr>health := max 0 (health (pet g1) - 15)\<rparr>\<rparr>;
            g3 = g2\<lparr>pet := (pet g2)\<lparr>happiness := max 0 (happiness (pet g2) - 20)\<rparr>\<rparr>
        in g3\<lparr>currentState := STATE_SICK\<rparr>)"

subsection \<open>The periodic tick and the shake branch of the main loop\<close>

text \<open>
  \<^verbatim>\<open>updateStats\<close> reads \<^verbatim>\<open>millis()\<close> twice in its last statement: \<open>m1\<close> in the
  comparison and \<open>m2\<close> in the assignment.
\<close>

definition updateStats :: "32 word \<Rightarrow> 32 word \<Rightarrow> globals \<Rightarrow> globals" where
  "updateStats m1 m2 g =
     (if currentState g = STATE_SLEEPING then
        g\<lparr>pet := (pet g)\<lparr>energy := min 100 (energy (pet g) + 5)\<rparr>\<rparr>
      else
        let p = pet g;
            p1 = p\<lparr>hunger := max 0 (hunger p - 1)\<rparr>;
            p2 = p1\<lparr>happiness := max 0 (happiness p1 - 1)\<rparr>;
            p3 = p2\<lparr>energy := max 0 (energy p2 - 1)\<rparr>;
            p4 = (if hunger p3 < 20 \<or> happiness p3 < 20 then
                    p3\<lparr>health := max 0 (health p3 - 2)\<rparr>
                  else if hunger p3 > 60 \<and> happiness p3 > 60 \<and> energy p3 > 40 then
                    p3\<lparr>health := min 100 (health p3 + 1)\<rparr>
                  else p3);
            s1 = (if hunger p4 < 30 \<and> currentState g = STATE_IDLE then STATE_HUNGRY
                  else currentState g);
            s2 = (if s1 = STATE_SICK \<and> health p4 > 60 \<and> happiness p4 > 50 \<and> energy p4 > 40
                  then STATE_IDLE else s1);
            g1 = g\<lparr>pet := p4, currentState := s2\<rparr>
        in if m1 - lastAgeUpdate g1 > 60000 then
             g1\<lparr>pet := (pet g1)\<lparr>age := age (pet g1) + 1\<rparr>, lastAgeUpdate := m2\<rparr>
           else g1)"

text \<open>
  The body of \<^verbatim>\<open>if (checkForShake())\<close> in \<^verbatim>\<open>loop\<close>: what a detected shake does.
  The detection itself (the magnitude of the acceleration against the threshold, and the
  debounce interval) is floating-point sensor code and is the event, not part of the
  model. \<open>currentTime\<close> is the loop's reading of \<^verbatim>\<open>millis()\<close>, \<open>now\<close> the later
  reading inside \<^verbatim>\<open>wakeUp\<close>.
\<close>

definition loop_shake :: "32 word \<Rightarrow> 32 word \<Rightarrow> globals \<Rightarrow> globals" where
  "loop_shake currentTime now g =
     (let g1 = g\<lparr>lastInteraction := currentTime\<rparr>
      in if currentState g1 = STATE_SLEEPING then wakeUp now g1
         else if currentState g1 \<noteq> STATE_SICK \<and> currentState g1 \<noteq> STATE_VOMITING then
           handleShakeSickness g1
         else g1)"

text \<open>\<^verbatim>\<open>updateAnimations\<close> changes one simulation variable: a pet that has been HAPPY
  for three seconds goes back to IDLE. \<open>elapsed\<close> says whether the three seconds are over.\<close>

definition updateAnimations :: "bool \<Rightarrow> globals \<Rightarrow> globals" where
  "updateAnimations elapsed g =
     (if currentState g = STATE_HAPPY \<and> elapsed then g\<lparr>currentState := STATE_IDLE\<rparr> else g)"

subsection \<open>Runs of the device\<close>

text \<open>
  What the sketch can do to the globals and to the store, one event at a time. A boot
  starts from the initialisers and runs \<^verbatim>\<open>setup\<close>, which either resets the pet (both
  buttons held) or loads the store, for whatever wake cause and clock reading the
  platform reports. The other events are the calls that \<^verbatim>\<open>loop\<close> and \<^verbatim>\<open>handleWakeup\<close>
  make; \<open>Touch\<close> stands for their direct assignments to \<^verbatim>\<open>lastInteraction\<close> and
  \<^verbatim>\<open>alertWakeup\<close>. Any event may follow any other, which covers every schedule of the
  loop, and a loss of power at any moment (the next event is then a boot).
\<close>

datatype event =
    Boot esp_sleep_wakeup_cause rtc_datetime
  | BootReset
  | Feed "32 word"
  | Play "32 word"
  | Sleep
  | Wake "32 word"
  | Shake "32 word" "32 word"
  | Tick "32 word" "32 word"
  | Anim bool
  | Save rtc_datetime
  | Touch "32 word" bool

fun step :: "event \<Rightarrow> globals \<times> Preferences \<Rightarrow> load_error + globals \<times> Preferences" where
  "step (Boot wakeup_reason dt) (g, prefs) =
     (case loadStats prefs wakeup_reason dt boot_globals of
        Inl err \<Rightarrow> Inl err
      | Inr g' \<Rightarrow> Inr (g', prefs))"
| "step BootReset (g, prefs) = Inr (resetPet boot_globals)"
| "step (Feed now) (g, prefs) = Inr (snd (feedPet now g), prefs)"
| "step (Play now) (g, prefs) = Inr (snd (playWithPet now g), prefs)"
| "step Sleep (g, prefs) = Inr (putToSleep g, prefs)"
| "step (Wake now) (g, prefs) = Inr (wakeUp now g, prefs)"
| "step (Shake currentTime now) (g, prefs) = Inr (loop_shake currentTime now g, prefs)"
| "step (Tick m1 m2) (g, prefs) = Inr (updateStats m1 m2 g, prefs)"
| "step (Anim elapsed) (g, prefs) = Inr (updateAnimations elapsed g, prefs)"
| "step (Save dt) (g, prefs) = Inr (g, saveStats dt g prefs)"
| "step (Touch t b) (g, prefs) = Inr (g\<lparr>lastInteraction := t, alertWakeup := b\<rparr>, prefs)"

fun run :: "event list \<Rightarrow> globals \<times> Preferences \<Rightarrow> load_error + globals \<times> Preferences" where
  "run [] s = Inr s"
| "run (ev # evs) s = (case step ev s of Inl err \<Rightarrow> Inl err | Inr s' \<Rightarrow> run evs s')"

text \<open>A device fresh from the factory: the initialisers, and an erased store.\<close>

definition power_on :: "globals \<times> Preferences" where
  "power_on = (boot_globals, Map.empty)"

text \<open>What a store must hold for a load to give statistics within bounds and a state.\<close>

definition stored_ok :: "Preferences \<Rightarrow> bool" where
  "stored_ok prefs =
     (stats_ok \<lparr>hunger = getInt prefs ''hunger'' 80,
                happiness = getInt prefs ''happiness'' 80,
                energy = getInt prefs ''energy'' 100,
                health = getInt prefs ''health'' 100,
                age = getULong prefs ''age'' 0\<rparr> \<and>
      PetState_of_int (getInt prefs ''state'' (PetState_to_int STATE_IDLE)) \<noteq> None)"

section \<open>Verification\<close>

subsection \<open>Auxiliary facts\<close>

lemma PetState_of_to_int: "PetState_of_int (PetState_to_int st) = Some st"
  by (cases st) (simp_all add: PetState_of_int_def)

lemma stats_ok_boot_globals: "stats_ok (pet boot_globals)"
  by (simp add: boot_globals_def stats_ok_def)

lemma stats_ok_updateStats: "stats_ok (pet g) \<Longrightarrow> stats_ok (pet (updateStats m1 m2 g))"
  by (auto simp: updateStats_def stats_ok_def Let_def)

lemma stats_ok_applyDecay:
  assumes "stats_ok (pet g)"
  shows "stats_ok (pet (applyDecay e sv g))"
proof -
  define t where "t = uint e div 2"
  have t: "0 \<le> t" "0 \<le> t div 2"
    by (simp_all add: t_def)
  show ?thesis
  proof (cases "sv = PetState_to_int STATE_SLEEPING")
    case True
    with assms t show ?thesis
      by (auto simp: applyDecay_def stats_ok_def Let_def simp flip: t_def)
  next
    case False
    with assms t show ?thesis
      by (auto simp: applyDecay_def stats_ok_def Let_def simp flip: t_def)
  qed
qed

lemma stats_ok_feedPet: "stats_ok (pet g) \<Longrightarrow> stats_ok (pet (snd (feedPet now g)))"
  by (auto simp: feedPet_def stats_ok_def Let_def)

lemma stats_ok_playWithPet: "stats_ok (pet g) \<Longrightarrow> stats_ok (pet (snd (playWithPet now g)))"
  by (auto simp: playWithPet_def stats_ok_def Let_def)

lemma stats_ok_handleShakeSickness:
  "stats_ok (pet g) \<Longrightarrow> stats_ok (pet (handleShakeSickness g))"
  by (auto simp: handleShakeSickness_def stats_ok_def Let_def)

lemma pet_wakeUp: "pet (wakeUp now g) = pet g"
  by (simp add: wakeUp_def)

lemma stats_ok_loop_shake: "stats_ok (pet g) \<Longrightarrow> stats_ok (pet (loop_shake t now g))"
  using stats_ok_handleShakeSickness [of "g\<lparr>lastInteraction := t\<rparr>"]
  by (simp add: loop_shake_def Let_def pet_wakeUp)

lemma stats_ok_resetPet: "stats_ok (pet (fst (resetPet g)))"
  by (simp add: resetPet_def stats_ok_def)

lemma stored_ok_empty: "stored_ok Map.empty"
  by (simp add: stored_ok_def stats_ok_def getInt_def getULong_def PetState_of_int_def)

lemma stored_ok_saveStats: "stats_ok (pet g) \<Longrightarrow> stored_ok (saveStats dt g prefs)"
  by (simp add: stored_ok_def saveStats_def putInt_def putULong_def getInt_def getULong_def
      stats_ok_def PetState_of_to_int)

text \<open>A load from a store in order succeeds, whatever the wake cause and the clock.\<close>

lemma loadStats_ok:
  assumes "stored_ok prefs" and "stats_ok (pet g)"
  shows "\<exists>g'. loadStats prefs w dt g = Inr g' \<and> stats_ok (pet g')"
proof (cases "isKey prefs ''hunger''")
  case False
  then show ?thesis using assms by (simp add: loadStats_def)
next
  case key: True
  let ?g0 = "g\<lparr>pet := \<lparr>hunger = getInt prefs ''hunger'' 80,
                        happiness = getInt prefs ''happiness'' 80,
                        energy = getInt prefs ''energy'' 100,
                        health = getInt prefs ''health'' 100,
                        age = getULong prefs ''age'' 0\<rparr>\<rparr>"
  have g0: "stats_ok (pet ?g0)"
    using assms(1) by (simp add: stored_ok_def)
  show ?thesis
  proof (cases "w = ESP_SLEEP_WAKEUP_TIMER \<or> w = ESP_SLEEP_WAKEUP_EXT0")
    case True
    with key stats_ok_applyDecay [OF g0] show ?thesis
      by (simp add: loadStats_def Let_def)
  next
    case False
    from assms(1) obtain st
      where "PetState_of_int (getInt prefs ''state'' (PetState_to_int STATE_IDLE)) = Some st"
      by (auto simp: stored_ok_def)
    with False key g0 show ?thesis
      by (simp add: loadStats_def Let_def)
  qed
qed

text \<open>Every event keeps the statistics in memory, and what the store holds, in order.\<close>

lemma step_ok:
  assumes "stats_ok (pet g)" and "stored_ok prefs"
  shows "\<exists>g' prefs'. step ev (g, prefs) = Inr (g', prefs') \<and> stats_ok (pet g') \<and> stored_ok prefs'"
proof (cases ev)
  case (Boot w dt)
  from loadStats_ok [OF assms(2) stats_ok_boot_globals, of w dt]
  obtain g' where "loadStats prefs w dt boot_globals = Inr g'" and "stats_ok (pet g')"
    by blast
  with Boot assms(2) show ?thesis by simp
next
  case BootReset
  have "stats_ok (pet (fst (resetPet boot_globals)))"
    by (rule stats_ok_resetPet)
  moreover have "stored_ok (snd (resetPet boot_globals))"
    by (simp add: resetPet_def stored_ok_empty)
  ultimately show ?thesis
    using BootReset by (cases "resetPet boot_globals") simp
next
  case (Feed now)
  with assms stats_ok_feedPet [of g now] show ?thesis by simp
next
  case (Play now)
  with assms stats_ok_playWithPet [of g now] show ?thesis by simp
next
  case Sleep
  with assms show ?thesis by (simp add: putToSleep_def)
next
  case (Wake now)
  with assms show ?thesis by (simp add: pet_wakeUp)
next
  case (Shake t now)
  with assms stats_ok_loop_shake [of g t now] show ?thesis by simp
next
  case (Tick m1 m2)
  with assms stats_ok_updateStats [of g m1 m2] show ?thesis by simp
next
  case (Anim b)
  with assms show ?thesis by (simp add: updateAnimations_def)
next
  case (Save dt)
  with assms stored_ok_saveStats [of g dt prefs] show ?thesis by simp
next
  case (Touch t b)
  with assms show ?thesis by simp
qed

lemma run_ok:
  "stats_ok (pet g) \<Longrightarrow> stored_ok prefs \<Longrightarrow>
   \<exists>g' prefs'. run evs (g, prefs) = Inr (g', prefs') \<and> stats_ok (pet g') \<and> stored_ok prefs'"
proof (induction evs arbitrary: g prefs)
  case Nil
  then show ?case by simp
next
  case (Cons ev evs)
  from step_ok [OF Cons.prems, of ev]
  obtain g1 prefs1 where s: "step ev (g, prefs) = Inr (g1, prefs1)"
    and ok: "stats_ok (pet g1)" "stored_ok prefs1"
    by blast
  from Cons.IH [OF ok] s show ?case by simp
qed

subsection \<open>The statistics stay within bounds\<close>

text \<open>
  C1. Every run of the device from the factory state goes through (no load meets a state
  value it cannot cast), and ends in a state whose hunger, happiness, energy and health all
  lie between 0 and 100. Each operation that changes a statistic keeps the four within
  those bounds: the tick of \<open>updateStats\<close> (awake or asleep), the decay on resume,
  feeding, playing, the sickness after a shake; and a reset sets them within bounds.
\<close>

theorem stats_within_bounds:
  "(\<exists>g prefs. run evs power_on = Inr (g, prefs) \<and> stats_ok (pet g)) \<and>
   (stats_ok (pet s) \<longrightarrow>
      stats_ok (pet (updateStats m1 m2 s)) \<and>
      stats_ok (pet (applyDecay elapsed savedState s)) \<and>
      stats_ok (pet (snd (feedPet now s))) \<and>
      stats_ok (pet (snd (playWithPet now s))) \<and>
      stats_ok (pet (handleShakeSickness s))) \<and>
   stats_ok (pet (fst (resetPet s)))"
proof -
  from run_ok [OF stats_ok_boot_globals stored_ok_empty, of evs]
  have "\<exists>g prefs. run evs power_on = Inr (g, prefs) \<and> stats_ok (pet g)"
    unfolding power_on_def by blast
  then show ?thesis
    by (simp add: stats_ok_updateStats stats_ok_applyDecay stats_ok_feedPet
        stats_ok_playWithPet stats_ok_handleShakeSickness stats_ok_resetPet)
qed

theorem stats_within_bounds_witness:
  "stats_ok (pet boot_globals) \<and>
   (\<exists>g prefs.
      run [Boot ESP_SLEEP_WAKEUP_UNDEFINED \<lparr>year = 2024, month = 6, date = 1, hours = 9, minutes = 0\<rparr>,
           Play 5000, Tick 70000 70001,
           Save \<lparr>year = 2024, month = 6, date = 1, hours = 9, minutes = 2\<rparr>,
           Boot ESP_SLEEP_WAKEUP_TIMER \<lparr>year = 2024, month = 6, date = 1, hours = 9, minutes = 17\<rparr>]
        power_on = Inr (g, prefs) \<and> stats_ok (pet g)) \<and>
   stats_ok (pet (updateStats 10000 10001 boot_globals)) \<and>
   stats_ok (pet (applyDecay 30 0 boot_globals)) \<and>
   stats_ok (pet (snd (feedPet 7 boot_globals))) \<and>
   stats_ok (pet (snd (playWithPet 7 boot_globals))) \<and>
   stats_ok (pet (handleShakeSickness boot_globals)) \<and>
   stats_ok (pet (fst (resetPet boot_globals)))"
  using stats_within_bounds
    [of "[Boot ESP_SLEEP_WAKEUP_UNDEFINED \<lparr>year = 2024, month = 6, date = 1, hours = 9, minutes = 0\<rparr>,
          Play 5000, Tick 70000 70001,
          Save \<lparr>year = 2024, month = 6, date = 1, hours = 9, minutes = 2\<rparr>,
          Boot ESP_SLEEP_WAKEUP_TIMER \<lparr>year = 2024, month = 6, date = 1, hours = 9, minutes = 17\<rparr>]"
        boot_globals 10000 10001 30 0 7]
    stats_ok_boot_globals
  by blast

subsection \<open>Decay on resume\<close>

text \<open>
  C2. When the saved state is not SLEEPING, the decay on resume takes
  \<open>ticks = elapsedMinutes div 2\<close>, subtracts \<open>ticks\<close> from hunger and from happiness and
  \<open>ticks div 2\<close> from energy, none going below 0, sets the state to IDLE, subtracts
  \<open>ticks\<close> from health (not below 0) exactly when the new hunger or the new happiness is
  below 10, and adds the elapsed minutes to the age.
\<close>

theorem decay_awake:
  assumes "savedState \<noteq> PetState_to_int STATE_SLEEPING"
  shows "let ticks = uint elapsed div 2;
             g' = applyDecay elapsed savedState g
         in hunger (pet g') = max 0 (hunger (pet g) - ticks) \<and>
            happiness (pet g') = max 0 (happiness (pet g) - ticks) \<and>
            energy (pet g') = max 0 (energy (pet g) - ticks div 2) \<and>
            currentState g' = STATE_IDLE \<and>
            health (pet g') =
              (if hunger (pet g') < 10 \<or> happiness (pet g') < 10
               then max 0 (health (pet g) - ticks) else health (pet g)) \<and>
            age (pet g') = age (pet g) + elapsed"
  using assms by (simp add: applyDecay_def Let_def)

text \<open>With the default statistics and 30 elapsed minutes: 15 off hunger and happiness,
  7 off energy, 30 on the age.\<close>

theorem decay_awake_witness:
  "PetState_to_int STATE_IDLE \<noteq> PetState_to_int STATE_SLEEPING \<and>
   hunger (pet (applyDecay 30 (PetState_to_int STATE_IDLE) boot_globals)) = 80 - 15 \<and>
   happiness (pet (applyDecay 30 (PetState_to_int STATE_IDLE) boot_globals)) = 80 - 15 \<and>
   energy (pet (applyDecay 30 (PetState_to_int STATE_IDLE) boot_globals)) = 100 - 7 \<and>
   health (pet (applyDecay 30 (PetState_to_int STATE_IDLE) boot_globals)) = 100 \<and>
   currentState (applyDecay 30 (PetState_to_int STATE_IDLE) boot_globals) = STATE_IDLE \<and>
   age (pet (applyDecay 30 (PetState_to_int STATE_IDLE) boot_globals)) = 0 + 30"
  using decay_awake [of "PetState_to_int STATE_IDLE" 30 boot_globals]
  by (simp add: boot_globals_def Let_def)

subsection \<open>The elapsed-minutes estimate\<close>

text \<open>
  C3. Whatever the wake cause, the clock reading, and the saved time and month (the
  defaults 0 and 0 stand for a store without them), the estimate of the elapsed minutes
  lies between 0 and 60.
\<close>

theorem elapsedMinutes_range:
  "0 \<le> uint (elapsedMinutes wakeup_reason dt savedTime savedMonth) \<and>
   uint (elapsedMinutes wakeup_reason dt savedTime savedMonth) \<le> 60"
proof -
  have "elapsedMinutes wakeup_reason dt savedTime savedMonth \<le> 60"
    by (auto simp: elapsedMinutes_def Let_def not_less)
  then show ?thesis
    by (simp add: word_le_def)
qed

theorem elapsedMinutes_range_witness:
  "uint (elapsedMinutes ESP_SLEEP_WAKEUP_EXT0
           \<lparr>year = 2024, month = 6, date = 20, hours = 8, minutes = 0\<rparr> 1540 6) \<le> 60 \<and>
   uint (elapsedMinutes ESP_SLEEP_WAKEUP_TIMER
           \<lparr>year = 2000, month = 1, date = 1, hours = 0, minutes = 0\<rparr>
           (getULong Map.empty ''saveTime'' 0) (getInt Map.empty ''saveMonth'' 0)) \<le> 60"
  using elapsedMinutes_range
    [of ESP_SLEEP_WAKEUP_EXT0 "\<lparr>year = 2024, month = 6, date = 20, hours = 8, minutes = 0\<rparr>" 1540 6]
    elapsedMinutes_range
    [of ESP_SLEEP_WAKEUP_TIMER "\<lparr>year = 2000, month = 1, date = 1, hours = 0, minutes = 0\<rparr>"
        "getULong Map.empty ''saveTime'' 0" "getInt Map.empty ''saveMonth'' 0"]
  by simp

text \<open>
  C7. With a saved time (not 0) and a clock whose year is after 2020, a month that differs
  from the saved month gives the fixed estimate: 15 minutes for a timer wake, 5 for a
  button wake, whatever the two times are.
\<close>

theorem elapsedMinutes_month_changed:
  assumes "savedTime > 0" and "year dt > 2020" and "month dt \<noteq> savedMonth"
  shows "elapsedMinutes ESP_SLEEP_WAKEUP_TIMER dt savedTime savedMonth = 15 \<and>
         elapsedMinutes ESP_SLEEP_WAKEUP_EXT0 dt savedTime savedMonth = 5"
  using assms by (simp add: elapsedMinutes_def Let_def)

theorem elapsedMinutes_month_changed_witness:
  "(40000 :: 32 word) > 0 \<and>
   year \<lparr>year = 2024, month = 7, date = 1, hours = 0, minutes = 5\<rparr> > 2020 \<and>
   month \<lparr>year = 2024, month = 7, date = 1, hours = 0, minutes = 5\<rparr> \<noteq> 6 \<and>
   elapsedMinutes ESP_SLEEP_WAKEUP_TIMER
     \<lparr>year = 2024, month = 7, date = 1, hours = 0, minutes = 5\<rparr> 40000 6 = 15 \<and>
   elapsedMinutes ESP_SLEEP_WAKEUP_EXT0
     \<lparr>year = 2024, month = 7, date = 1, hours = 0, minutes = 5\<rparr> 40000 6 = 5"
  using elapsedMinutes_month_changed
    [of 40000 "\<lparr>year = 2024, month = 7, date = 1, hours = 0, minutes = 5\<rparr>" 6]
  by simp

subsection \<open>Saving and loading\<close>

text \<open>
  C4. A load on a fresh boot (a wake cause that is neither the timer nor the button) of
  the store that \<open>saveStats\<close> has just written gives back the saved hunger, happiness,
  energy, health and age with no decay, and the saved state, except that a saved SLEEPING
  becomes IDLE.
\<close>

theorem save_load_fresh_boot:
  assumes "wakeup_reason \<noteq> ESP_SLEEP_WAKEUP_TIMER" and "wakeup_reason \<noteq> ESP_SLEEP_WAKEUP_EXT0"
  shows "loadStats (saveStats dt g prefs) wakeup_reason dt' g0 =
           Inr (g0\<lparr>pet := pet g,
                  currentState :=
                    (if currentState g = STATE_SLEEPING then STATE_IDLE else currentState g),
                  alertWakeup := False\<rparr>)"
  using assms
  by (simp add: loadStats_def saveStats_def putInt_def putULong_def getInt_def getULong_def
      isKey_def PetState_of_to_int Let_def)

theorem save_load_fresh_boot_witness:
  "ESP_SLEEP_WAKEUP_UNDEFINED \<noteq> ESP_SLEEP_WAKEUP_TIMER \<and>
   ESP_SLEEP_WAKEUP_UNDEFINED \<noteq> ESP_SLEEP_WAKEUP_EXT0 \<and>
   loadStats
     (saveStats \<lparr>year = 2024, month = 6, date = 1, hours = 9, minutes = 0\<rparr>
        \<lparr>pet = \<lparr>hunger = 41, happiness = 7, energy = 100, health = 63, age = 500\<rparr>,
         currentState = STATE_SLEEPING, alertWakeup = True,
         lastInteraction = 1000, lastAgeUpdate = 900\<rparr>
        Map.empty)
     ESP_SLEEP_WAKEUP_UNDEFINED
     \<lparr>year = 2024, month = 6, date = 3, hours = 12, minutes = 30\<rparr>
     boot_globals =
   Inr \<lparr>pet = \<lparr>hunger = 41, happiness = 7, energy = 100, health = 63, age = 500\<rparr>,
        currentState = STATE_IDLE, alertWakeup = False,
        lastInteraction = 0, lastAgeUpdate = 0\<rparr>"
  using save_load_fresh_boot
    [of ESP_SLEEP_WAKEUP_UNDEFINED
        "\<lparr>year = 2024, month = 6, date = 1, hours = 9, minutes = 0\<rparr>"
        "\<lparr>pet = \<lparr>hunger = 41, happiness = 7, energy = 100, health = 63, age = 500\<rparr>,
          currentState = STATE_SLEEPING, alertWakeup = True,
          lastInteraction = 1000, lastAgeUpdate = 900\<rparr>"
        Map.empty
        "\<lparr>year = 2024, month = 6, date = 3, hours = 12, minutes = 30\<rparr>"
        boot_globals]
  by (simp add: boot_globals_def)

text \<open>
  C5, as amended. On statistics within bounds, the decay with 0 elapsed minutes leaves
  hunger, happiness, energy, health and age (and the timing variables) as they are. The
  state it sets: SLEEPING when the saved state is SLEEPING, and IDLE for every other saved
  state. So the state too is unchanged for a saved IDLE or SLEEPING, and for no other.
\<close>

theorem decay_zero_minutes:
  assumes "stats_ok (pet g)"
  shows "applyDecay 0 savedState g =
           g\<lparr>currentState :=
                (if savedState = PetState_to_int STATE_SLEEPING then STATE_SLEEPING
                 else STATE_IDLE)\<rparr>"
  using assms by (auto simp: applyDecay_def stats_ok_def Let_def)

theorem decay_zero_minutes_witness:
  "stats_ok (pet boot_globals) \<and>
   applyDecay 0 (PetState_to_int STATE_SLEEPING) boot_globals =
     boot_globals\<lparr>currentState := STATE_SLEEPING\<rparr> \<and>
   applyDecay 0 (PetState_to_int STATE_SICK) boot_globals = boot_globals"
  using decay_zero_minutes [OF stats_ok_boot_globals, of "PetState_to_int STATE_SLEEPING"]
    decay_zero_minutes [OF stats_ok_boot_globals, of "PetState_to_int STATE_SICK"]
    stats_ok_boot_globals
  by (simp add: boot_globals_def)

text \<open>
  C5 without the amendment also keeps the state. A snapshot saved while the pet was
  HUNGRY, resumed after 0 minutes, comes back IDLE.
\<close>

theorem decay_zero_minutes_counterexample:
  "currentState (applyDecay 0 (PetState_to_int STATE_HUNGRY) boot_globals) \<noteq> STATE_HUNGRY"
  by (simp add: applyDecay_def boot_globals_def Let_def)

text \<open>
  C6, as amended. The load treats the store as empty exactly when the key \<open>hunger\<close> is
  missing: then the globals stay as they are. When \<open>hunger\<close> is there, every field is
  read with its own default (80, 80, 100, 100, age 0, state IDLE, time 0, month 0), which a
  getter returns for a missing key; so a store holding some of the fields gives saved
  values next to defaults. On a fresh boot these values are the result; on a timer or
  button wake the decay is applied to them.
\<close>

theorem load_reads_each_field:
  "(\<not> isKey prefs ''hunger'' \<longrightarrow> loadStats prefs wakeup_reason dt g = Inr g) \<and>
   (isKey prefs ''hunger'' \<and>
    wakeup_reason \<noteq> ESP_SLEEP_WAKEUP_TIMER \<and> wakeup_reason \<noteq> ESP_SLEEP_WAKEUP_EXT0 \<and>
    PetState_of_int (getInt prefs ''state'' 0) = Some st \<longrightarrow>
      loadStats prefs wakeup_reason dt g =
        Inr (g\<lparr>pet := \<lparr>hunger = getInt prefs ''hunger'' 80,
                         happiness = getInt prefs ''happiness'' 80,
                         energy = getInt prefs ''energy'' 100,
                         health = getInt prefs ''health'' 100,
                         age = getULong prefs ''age'' 0\<rparr>,
               currentState := (if st = STATE_SLEEPING then STATE_IDLE else st),
               alertWakeup := False\<rparr>)) \<and>
   (isKey prefs ''hunger'' \<and>
    (wakeup_reason = ESP_SLEEP_WAKEUP_TIMER \<or> wakeup_reason = ESP_SLEEP_WAKEUP_EXT0) \<longrightarrow>
      loadStats prefs wakeup_reason dt g =
        Inr ((applyDecay
               (elapsedMinutes wakeup_reason dt
                  (getULong prefs ''saveTime'' 0) (getInt prefs ''saveMonth'' 0))
               (getInt prefs ''state'' 0)
               (g\<lparr>pet := \<lparr>hunger = getInt prefs ''hunger'' 80,
                            happiness = getInt prefs ''happiness'' 80,
                            energy = getInt prefs ''energy'' 100,
                            health = getInt prefs ''health'' 100,
                            age = getULong prefs ''age'' 0\<rparr>\<rparr>))
             \<lparr>alertWakeup := (wakeup_reason = ESP_SLEEP_WAKEUP_TIMER)\<rparr>)) \<and>
   (prefs k = None \<longrightarrow> getInt prefs k d = d \<and> getULong prefs k d' = d')"
proof -
  have absent: "\<not> isKey prefs ''hunger'' \<longrightarrow> loadStats prefs wakeup_reason dt g = Inr g"
    by (simp add: loadStats_def)
  have fresh: "isKey prefs ''hunger'' \<and>
    wakeup_reason \<noteq> ESP_SLEEP_WAKEUP_TIMER \<and> wakeup_reason \<noteq> ESP_SLEEP_WAKEUP_EXT0 \<and>
    PetState_of_int (getInt prefs ''state'' 0) = Some st \<longrightarrow>
      loadStats prefs wakeup_reason dt g =
        Inr (g\<lparr>pet := \<lparr>hunger = getInt prefs ''hunger'' 80,
                         happiness = getInt prefs ''happiness'' 80,
                         energy = getInt prefs ''energy'' 100,
                         health = getInt prefs ''health'' 100,
                         age = getULong prefs ''age'' 0\<rparr>,
               currentState := (if st = STATE_SLEEPING then STATE_IDLE else st),
               alertWakeup := False\<rparr>)"
    by (simp add: loadStats_def Let_def)
  have resume: "isKey prefs ''hunger'' \<and>
    (wakeup_reason = ESP_SLEEP_WAKEUP_TIMER \<or> wakeup_reason = ESP_SLEEP_WAKEUP_EXT0) \<longrightarrow>
      loadStats prefs wakeup_reason dt g =
        Inr ((applyDecay
               (elapsedMinutes wakeup_reason dt
                  (getULong prefs ''saveTime'' 0) (getInt prefs ''saveMonth'' 0))
               (getInt prefs ''state'' 0)
               (g\<lparr>pet := \<lparr>hunger = getInt prefs ''hunger'' 80,
                            happiness = getInt prefs ''happiness'' 80,
                            energy = getInt prefs ''energy'' 100,
                            health = getInt prefs ''health'' 100,
                            age = getULong prefs ''age'' 0\<rparr>\<rparr>))
             \<lparr>alertWakeup := (wakeup_reason = ESP_SLEEP_WAKEUP_TIMER)\<rparr>)"
    by (simp add: loadStats_def Let_def)
  have missing: "prefs k = None \<longrightarrow> getInt prefs k d = d \<and> getULong prefs k d' = d'"
    by (simp add: getInt_def getULong_def)
  from absent fresh resume missing show ?thesis
    by (intro conjI)
qed

theorem load_reads_each_field_witness:
  "loadStats (putInt ''health'' 3 Map.empty) ESP_SLEEP_WAKEUP_UNDEFINED
     \<lparr>year = 2024, month = 6, date = 1, hours = 0, minutes = 0\<rparr> boot_globals = Inr boot_globals \<and>
   loadStats (putInt ''happiness'' 5 (putInt ''hunger'' 10 Map.empty)) ESP_SLEEP_WAKEUP_UNDEFINED
     \<lparr>year = 2024, month = 6, date = 1, hours = 0, minutes = 0\<rparr> boot_globals =
     Inr (boot_globals
            \<lparr>pet := \<lparr>hunger = 10, happiness = 5, energy = 100, health = 100, age = 0\<rparr>\<rparr>)"
  using load_reads_each_field
    [of "putInt ''health'' 3 Map.empty" ESP_SLEEP_WAKEUP_UNDEFINED
        "\<lparr>year = 2024, month = 6, date = 1, hours = 0, minutes = 0\<rparr>" boot_globals STATE_IDLE]
    load_reads_each_field
    [of "putInt ''happiness'' 5 (putInt ''hunger'' 10 Map.empty)" ESP_SLEEP_WAKEUP_UNDEFINED
        "\<lparr>year = 2024, month = 6, date = 1, hours = 0, minutes = 0\<rparr>" boot_globals STATE_IDLE]
  by (simp add: isKey_def putInt_def getInt_def getULong_def PetState_of_int_def boot_globals_def)

text \<open>
  C6 without the amendment has a store with only some of the fields treated as empty.
  A store that holds hunger 10 and happiness 5 and nothing else is loaded as hunger 10,
  happiness 5, energy 100, health 100: two saved values and two defaults, not the
  defaults 80, 80, 100, 100 of an empty store.
\<close>

theorem load_partial_store_counterexample:
  "\<not> isKey (putInt ''happiness'' 5 (putInt ''hunger'' 10 Map.empty)) ''energy'' \<and>
   loadStats (putInt ''happiness'' 5 (putInt ''hunger'' 10 Map.empty)) ESP_SLEEP_WAKEUP_UNDEFINED
     \<lparr>year = 2024, month = 6, date = 1, hours = 0, minutes = 0\<rparr> boot_globals
     \<noteq> Inr boot_globals \<and>
   loadStats (putInt ''happiness'' 5 (putInt ''hunger'' 10 Map.empty)) ESP_SLEEP_WAKEUP_UNDEFINED
     \<lparr>year = 2024, month = 6, date = 1, hours = 0, minutes = 0\<rparr> boot_globals =
     Inr (boot_globals
            \<lparr>pet := \<lparr>hunger = 10, happiness = 5, energy = 100, health = 100, age = 0\<rparr>\<rparr>)"
  by (simp add: loadStats_def isKey_def putInt_def getInt_def getULong_def PetState_of_int_def
      boot_globals_def Let_def)

subsection \<open>Feeding and playing\<close>

text \<open>
  C8. On a pet whose hunger is at most 100: feeding is refused, with the message
  AlreadyFull and the globals untouched, exactly when hunger is 100; otherwise it adds 25
  to hunger and 5 to happiness, each capped at 100. Playing is refused, with the message
  TooTired and the globals untouched, exactly when energy is below 20; otherwise it adds
  20 to happiness (capped at 100) and takes 15 from energy and 5 from hunger (not below 0).
\<close>

theorem feed_and_play:
  assumes "hunger (pet g) \<le> 100"
  shows "((fst (feedPet now g) = Some AlreadyFull) = (hunger (pet g) = 100)) \<and>
         (hunger (pet g) = 100 \<longrightarrow> snd (feedPet now g) = g) \<and>
         (hunger (pet g) \<noteq> 100 \<longrightarrow>
            fst (feedPet now g) = None \<and>
            pet (snd (feedPet now g)) =
              (pet g)\<lparr>hunger := min 100 (hunger (pet g) + 25),
                      happiness := min 100 (happiness (pet g) + 5)\<rparr>) \<and>
         ((fst (playWithPet now g) = Some TooTired) = (energy (pet g) < 20)) \<and>
         (energy (pet g) < 20 \<longrightarrow> snd (playWithPet now g) = g) \<and>
         (\<not> energy (pet g) < 20 \<longrightarrow>
            fst (playWithPet now g) = None \<and>
            pet (snd (playWithPet now g)) =
              (pet g)\<lparr>happiness := min 100 (happiness (pet g) + 20),
                      energy := max 0 (energy (pet g) - 15),
                      hunger := max 0 (hunger (pet g) - 5)\<rparr>)"
proof -
  have feed: "((fst (feedPet now g) = Some AlreadyFull) = (hunger (pet g) = 100)) \<and>
         (hunger (pet g) = 100 \<longrightarrow> snd (feedPet now g) = g) \<and>
         (hunger (pet g) \<noteq> 100 \<longrightarrow>
            fst (feedPet now g) = None \<and>
            pet (snd (feedPet now g)) =
              (pet g)\<lparr>hunger := min 100 (hunger (pet g) + 25),
                      happiness := min 100 (happiness (pet g) + 5)\<rparr>)"
    using assms by (auto simp: feedPet_def Let_def)
  have play: "((fst (playWithPet now g) = Some TooTired) = (energy (pet g) < 20)) \<and>
         (energy (pet g) < 20 \<longrightarrow> snd (playWithPet now g) = g) \<and>
         (\<not> energy (pet g) < 20 \<longrightarrow>
            fst (playWithPet now g) = None \<and>
            pet (snd (playWithPet now g)) =
              (pet g)\<lparr>happiness := min 100 (happiness (pet g) + 20),
                      energy := max 0 (energy (pet g) - 15),
                      hunger := max 0 (hunger (pet g) - 5)\<rparr>)"
    by (auto simp: playWithPet_def Let_def)
  from feed play show ?thesis
    by blast
qed

text \<open>A full and tired pet refuses both; the default pet accepts both.\<close>

theorem feed_and_play_witness:
  "feedPet 9 (boot_globals\<lparr>pet := (pet boot_globals)\<lparr>hunger := 100, energy := 15\<rparr>\<rparr>) =
     (Some AlreadyFull, boot_globals\<lparr>pet := (pet boot_globals)\<lparr>hunger := 100, energy := 15\<rparr>\<rparr>) \<and>
   playWithPet 9 (boot_globals\<lparr>pet := (pet boot_globals)\<lparr>hunger := 100, energy := 15\<rparr>\<rparr>) =
     (Some TooTired, boot_globals\<lparr>pet := (pet boot_globals)\<lparr>hunger := 100, energy := 15\<rparr>\<rparr>) \<and>
   fst (feedPet 9 boot_globals) = None \<and>
   pet (snd (feedPet 9 boot_globals)) =
     \<lparr>hunger = 100, happiness = 85, energy = 100, health = 100, age = 0\<rparr> \<and>
   fst (playWithPet 9 boot_globals) = None \<and>
   pet (snd (playWithPet 9 boot_globals)) =
     \<lparr>hunger = 75, happiness = 100, energy = 85, health = 100, age = 0\<rparr>"
  using feed_and_play
    [of "boot_globals\<lparr>pet := (pet boot_globals)\<lparr>hunger := 100, energy := 15\<rparr>\<rparr>" 9]
    feed_and_play [of boot_globals 9]
  by (simp add: boot_globals_def prod_eq_iff)

subsection \<open>The tick of a sleeping pet\<close>

text \<open>
  C9. While the state is SLEEPING, a tick sets energy to the smaller of 100 and energy + 5
  and changes nothing else: hunger, happiness, health, the state and the age (with the time
  of its last increment) stay as they are.
\<close>

theorem sleeping_tick:
  assumes "currentState g = STATE_SLEEPING"
  shows "updateStats m1 m2 g = g\<lparr>pet := (pet g)\<lparr>energy := min 100 (energy (pet g) + 5)\<rparr>\<rparr> \<and>
         energy (pet (updateStats m1 m2 g)) = min 100 (energy (pet g) + 5) \<and>
         hunger (pet (updateStats m1 m2 g)) = hunger (pet g) \<and>
         happiness (pet (updateStats m1 m2 g)) = happiness (pet g) \<and>
         health (pet (updateStats m1 m2 g)) = health (pet g) \<and>
         age (pet (updateStats m1 m2 g)) = age (pet g) \<and>
         currentState (updateStats m1 m2 g) = STATE_SLEEPING \<and>
         lastAgeUpdate (updateStats m1 m2 g) = lastAgeUpdate g"
  using assms by (simp add: updateStats_def)

text \<open>Energy 90 becomes 95, more than a minute after the last increment of the age.\<close>

theorem sleeping_tick_witness:
  "currentState
     \<lparr>pet = \<lparr>hunger = 50, happiness = 60, energy = 90, health = 70, age = 12\<rparr>,
      currentState = STATE_SLEEPING, alertWakeup = False,
      lastInteraction = 0, lastAgeUpdate = 0\<rparr> = STATE_SLEEPING \<and>
   updateStats 70000 70001
     \<lparr>pet = \<lparr>hunger = 50, happiness = 60, energy = 90, health = 70, age = 12\<rparr>,
      currentState = STATE_SLEEPING, alertWakeup = False,
      lastInteraction = 0, lastAgeUpdate = 0\<rparr> =
     \<lparr>pet = \<lparr>hunger = 50, happiness = 60, energy = 95, health = 70, age = 12\<rparr>,
      currentState = STATE_SLEEPING, alertWakeup = False,
      lastInteraction = 0, lastAgeUpdate = 0\<rparr>"
  using sleeping_tick
    [of "\<lparr>pet = \<lparr>hunger = 50, happiness = 60, energy = 90, health = 70, age = 12\<rparr>,
          currentState = STATE_SLEEPING, alertWakeup = False,
          lastInteraction = 0, lastAgeUpdate = 0\<rparr>" 70000 70001]
  by simp

subsection \<open>Shaking the device\<close>

text \<open>
  C10. A detected shake changes the pet outside the caregiving actions. A SLEEPING pet
  wakes to IDLE and its statistics stay. A pet that is neither SLEEPING nor SICK nor
  VOMITING loses 15 health and 20 happiness, neither going below 0, and ends SICK. On a
  SICK or VOMITING pet the shake changes neither the statistics nor the state.
\<close>

theorem loop_shake_effect:
  "(currentState g = STATE_SLEEPING \<longrightarrow>
      pet (loop_shake currentTime now g) = pet g \<and>
      currentState (loop_shake currentTime now g) = STATE_IDLE) \<and>
   (currentState g \<noteq> STATE_SLEEPING \<and> currentState g \<noteq> STATE_SICK \<and>
    currentState g \<noteq> STATE_VOMITING \<longrightarrow>
      pet (loop_shake currentTime now g) =
        (pet g)\<lparr>health := max 0 (health (pet g) - 15),
                happiness := max 0 (happiness (pet g) - 20)\<rparr> \<and>
      currentState (loop_shake currentTime now g) = STATE_SICK) \<and>
   (currentState g = STATE_SICK \<or> currentState g = STATE_VOMITING \<longrightarrow>
      pet (loop_shake currentTime now g) = pet g \<and>
      currentState (loop_shake currentTime now g) = currentState g)"
proof (cases "currentState g = STATE_SLEEPING")
  case True
  then show ?thesis
    by (simp add: loop_shake_def wakeUp_def)
next
  case awake: False
  show ?thesis
  proof (cases "currentState g = STATE_SICK \<or> currentState g = STATE_VOMITING")
    case True
    with awake show ?thesis
      by (auto simp: loop_shake_def)
  next
    case False
    with awake show ?thesis
      by (simp add: loop_shake_def handleShakeSickness_def Let_def)
  qed
qed

theorem loop_shake_effect_witness:
  "pet (loop_shake 500 501 (boot_globals\<lparr>currentState := STATE_SLEEPING\<rparr>)) = pet boot_globals \<and>
   currentState (loop_shake 500 501 (boot_globals\<lparr>currentState := STATE_SLEEPING\<rparr>)) = STATE_IDLE \<and>
   pet (loop_shake 500 501 boot_globals) =
     \<lparr>hunger = 80, happiness = 60, energy = 100, health = 85, age = 0\<rparr> \<and>
   currentState (loop_shake 500 501 boot_globals) = STATE_SICK \<and>
   pet (loop_shake 500 501 (boot_globals\<lparr>currentState := STATE_SICK\<rparr>)) = pet boot_globals \<and>
   currentState (loop_shake 500 501 (boot_globals\<lparr>currentState := STATE_SICK\<rparr>)) = STATE_SICK"
  using loop_shake_effect [of "boot_globals\<lparr>currentState := STATE_SLEEPING\<rparr>" 500 501]
    loop_shake_effect [of boot_globals 500 501]
    loop_shake_effect [of "boot_globals\<lparr>currentState := STATE_SICK\<rparr>" 500 501]
  by (simp add: boot_globals_def)

end
